theory Spec2Isabelle
  imports Main
begin

section \<open>Python values used by \<^verbatim>\<open>docs/extractor.py\<close>\<close>

text \<open>
  A Python \<^verbatim>\<open>str\<close> is a sequence of Unicode code points; it is modelled as the list of
  its code points. \<open>lit\<close> turns a literal of the source into that list.
\<close>

type_synonym str = "nat list"

definition lit :: "string \<Rightarrow> str" where
  "lit s = map of_char s"

text \<open>
  The characters \<^verbatim>\<open>str.isspace\<close>, \<^verbatim>\<open>str.strip\<close> and \<^verbatim>\<open>str.split\<close> treat as whitespace:
  TAB to CR, the separators U+001C to U+001F, SPACE, U+0085, U+00A0, U+1680,
  U+2000 to U+200A, U+2028, U+2029, U+202F, U+205F and U+3000.
\<close>

definition is_space :: "nat \<Rightarrow> bool" where
  "is_space c \<longleftrightarrow>
     (9 \<le> c \<and> c \<le> 13) \<or> (28 \<le> c \<and> c \<le> 32) \<or> c = 133 \<or> c = 160 \<or> c = 5760 \<or>
     (8192 \<le> c \<and> c \<le> 8202) \<or> c = 8232 \<or> c = 8233 \<or> c = 8239 \<or> c = 8287 \<or> c = 12288"

text \<open>\<^verbatim>\<open>s.isspace()\<close>: at least one character, and all of them whitespace.\<close>

definition isspace :: "str \<Rightarrow> bool" where
  "isspace s \<longleftrightarrow> s \<noteq> [] \<and> list_all is_space s"

text \<open>\<^verbatim>\<open>s.strip()\<close>: whitespace removed at both ends.\<close>

definition strip :: "str \<Rightarrow> str" where
  "strip s = rev (dropWhile is_space (rev (dropWhile is_space s)))"

text \<open>\<^verbatim>\<open>s.replace(c, "")\<close> for a one-character \<^verbatim>\<open>c\<close>: every occurrence removed.\<close>

definition remove_char :: "nat \<Rightarrow> str \<Rightarrow> str" where
  "remove_char c s = filter (\<lambda>x. x \<noteq> c) s"

text \<open>\<^verbatim>\<open>s.startswith(p)\<close>.\<close>

definition startswith :: "str \<Rightarrow> str \<Rightarrow> bool" where
  "startswith s p \<longleftrightarrow> take (length p) s = p"

text \<open>
  \<^verbatim>\<open>s.split()\<close>: the maximal runs of non-whitespace characters, in order. The first
  argument holds the run read so far.
\<close>

fun split_run :: "str \<Rightarrow> str \<Rightarrow> str list" where
  "split_run cur [] = (if cur = [] then [] else [cur])"
| "split_run cur (c # cs) =
     (if is_space c then (if cur = [] then split_run [] cs else cur # split_run [] cs)
      else split_run (cur @ [c]) cs)"

definition split_ws :: "str \<Rightarrow> str list" where
  "split_ws s = split_run [] s"

text \<open>
  \<^verbatim>\<open>s.split(sep)\<close> for a one-character separator: the pieces between the occurrences
  of \<^verbatim>\<open>sep\<close>, empty pieces kept.
\<close>

fun split_piece :: "nat \<Rightarrow> str \<Rightarrow> str \<Rightarrow> str list" where
  "split_piece sep cur [] = [cur]"
| "split_piece sep cur (c # cs) =
     (if c = sep then cur # split_piece sep [] cs else split_piece sep (cur @ [c]) cs)"

definition split_on :: "nat \<Rightarrow> str \<Rightarrow> str list" where
  "split_on sep s = split_piece sep [] s"

text \<open>\<^verbatim>\<open>sep.join(xs)\<close>.\<close>

fun join :: "str \<Rightarrow> str list \<Rightarrow> str" where
  "join sep [] = []"
| "join sep [x] = x"
| "join sep (x # y # ys) = x @ sep @ join sep (y # ys)"

text \<open>
  The \<^verbatim>\<open>bytes\<close> a command prints are represented by what \<^verbatim>\<open>bytes.decode("utf-8")\<close>
  does on them: either they are the UTF-8 encoding of a text, which \<^verbatim>\<open>decode\<close> returns,
  or they are not valid UTF-8 and \<^verbatim>\<open>decode\<close> raises \<^verbatim>\<open>UnicodeDecodeError\<close>.
\<close>

datatype bytes = Utf8 str | NotUtf8

datatype error =
    KeyError | IndexError | TypeError | AttributeError | UnicodeDecodeError
  | FileNotFoundError | GithubException

fun decode :: "bytes \<Rightarrow> error + str" where
  "decode (Utf8 t) = Inr t"
| "decode NotUtf8 = Inl UnicodeDecodeError"

text \<open>
  The values a field record or an image attribute can hold: a string, an integer, or a
  value of another JSON kind, which the extractor only passes along.
\<close>

datatype val = Str str | Num int | Other nat

section \<open>The container runtime collaborator\<close>

text \<open>
  A running container as the extractor uses it: \<^verbatim>\<open>exec_run(cmd)\<close> returns the exit status
  and the output, \<^verbatim>\<open>image.attrs\<close> is the attribute dictionary of the image.
\<close>

record container =
  exec_run :: "str \<Rightarrow> int \<times> bytes"
  image_attrs :: "str \<rightharpoonup> val"

section \<open>\<^verbatim>\<open>SupportMatrixExtractor\<close>\<close>

text \<open>
  Field records are Python dictionaries that two names can share, so they live in a
  heap: an address is the dictionary made by one evaluation of a \<^verbatim>\<open>{}\<close> display
  (\<open>Lit n\<close>, with \<open>n\<close> the allocation number), or the dictionary \<^verbatim>\<open>json.load\<close> made for the
  entry \<open>(c, r)\<close> of the file during allocation \<open>n\<close> (\<open>Loaded n c r\<close>). \<open>fresh\<close> is the
  next allocation number. \<^verbatim>\<open>self.data\<close> and the dictionaries of its containers are
  reachable through \<^verbatim>\<open>self.data\<close> only and are held by value; their leaves are the
  addresses of the field records.
\<close>

datatype addr = Lit nat | Loaded nat str str

type_synonym fields = "str \<rightharpoonup> val"

record extractor =
  container_name :: str
  release :: str
  datafile :: str
  force :: bool
  container :: "container option"
  data :: "str \<rightharpoonup> (str \<rightharpoonup> addr)"
  contdata :: addr
  heap :: "addr \<Rightarrow> fields"
  fresh :: nat

text \<open>The single quote, which ends several command lines.\<close>

definition apostrophe :: str where
  "apostrophe = [39]"

definition ERROR :: str where
  "ERROR = lit ''Not applicable''"

text \<open>\<^verbatim>\<open>self.contdata[key] = v\<close>: the dictionary at the address \<^verbatim>\<open>self.contdata\<close> is updated.\<close>

definition setitem :: "str \<Rightarrow> val \<Rightarrow> extractor \<Rightarrow> extractor" where
  "setitem key v s = s\<lparr>heap := (heap s)(contdata s := (heap s (contdata s))(key \<mapsto> v))\<rparr>"

text \<open>\<^verbatim>\<open>if key is None: key = lookup\<close>.\<close>

definition default_key :: "str \<Rightarrow> str option \<Rightarrow> str" where
  "default_key lookup key0 = (case key0 of None \<Rightarrow> lookup | Some k \<Rightarrow> k)"

definition use_container :: "container \<Rightarrow> extractor \<Rightarrow> extractor" where
  "use_container c s = s\<lparr>container := Some c\<rparr>"

text \<open>
  The command lines the probes build with \<^verbatim>\<open>str.format\<close>:
  \<^verbatim>\<open>"bash -c 'source {0}; echo ${{{1}}}'"\<close>, \<^verbatim>\<open>"bash -c 'echo ${{{0}}}'"\<close>,
  \<^verbatim>\<open>"python -m pip show '{}'"\<close> and \<^verbatim>\<open>"bash -c '{}'"\<close>.
\<close>

definition envfile_command :: "str \<Rightarrow> str \<Rightarrow> str" where
  "envfile_command path lookup =
     lit ''bash -c 'source '' @ path @ lit ''; echo ${'' @ lookup @ lit ''}'' @ apostrophe"

definition env_command :: "str \<Rightarrow> str" where
  "env_command lookup = lit ''bash -c 'echo ${'' @ lookup @ lit ''}'' @ apostrophe"

definition pip_command :: "str \<Rightarrow> str" where
  "pip_command lookup = lit ''python -m pip show '' @ apostrophe @ lookup @ apostrophe"

definition shell_command :: "str \<Rightarrow> str" where
  "shell_command cmd = lit ''bash -c '' @ apostrophe @ cmd @ apostrophe"

text \<open>
  The probes. Each returns the extractor after the call, or the exception that leaves
  the method. Logging has no effect on the extractor and is left out, except where
  evaluating its arguments can raise.
\<close>

definition get_from_envfile :: "str \<Rightarrow> str \<Rightarrow> str option \<Rightarrow> extractor \<Rightarrow> error + extractor" where
  "get_from_envfile path lookup key0 s =
     (let key = default_key lookup key0;
          s1 = setitem key (Str ERROR) s
      in case container s1 of
           None \<Rightarrow> Inl AttributeError
         | Some c \<Rightarrow>
             (case exec_run c (envfile_command path lookup) of
                (err, output) \<Rightarrow>
                  (case decode output of
                     Inl e \<Rightarrow> Inl e
                   | Inr result \<Rightarrow>
                       if err \<noteq> 1 \<and> \<not> isspace result
                       then Inr (setitem key (Str (strip (remove_char 34 result))) s1)
                       else Inr s1)))"

definition get_from_env :: "str \<Rightarrow> str option \<Rightarrow> extractor \<Rightarrow> error + extractor" where
  "get_from_env lookup key0 s =
     (let key = default_key lookup key0;
          s1 = setitem key (Str ERROR) s
      in case container s1 of
           None \<Rightarrow> Inl AttributeError
         | Some c \<Rightarrow>
             (case exec_run c (env_command lookup) of
                (err, output) \<Rightarrow>
                  (case decode output of
                     Inl e \<Rightarrow> Inl e
                   | Inr result \<Rightarrow>
                       if err \<noteq> 1 \<and> \<not> isspace result
                       then Inr (setitem key (Str (strip (remove_char 34 result))) s1)
                       else Inr s1)))"

text \<open>
  The list comprehension of \<^verbatim>\<open>get_from_pip\<close>: \<^verbatim>\<open>line.split()[-1]\<close> for every line that
  starts with \<^verbatim>\<open>Version:\<close>; indexing an empty list raises \<^verbatim>\<open>IndexError\<close>.
\<close>

fun versions :: "str list \<Rightarrow> error + str list" where
  "versions [] = Inr []"
| "versions (line # lines) =
     (if startswith line (lit ''Version:'')
      then (case split_ws line of
              [] \<Rightarrow> Inl IndexError
            | t # ts \<Rightarrow>
                (case versions lines of
                   Inl e \<Rightarrow> Inl e
                 | Inr vs \<Rightarrow> Inr (last (t # ts) # vs)))
      else versions lines)"

definition get_from_pip :: "str \<Rightarrow> str option \<Rightarrow> extractor \<Rightarrow> error + extractor" where
  "get_from_pip lookup key0 s =
     (let key = default_key lookup key0;
          s1 = setitem key (Str ERROR) s
      in case container s1 of
           None \<Rightarrow> Inl AttributeError
         | Some c \<Rightarrow>
             (case exec_run c (pip_command lookup) of
                (err, output) \<Rightarrow>
                  if err \<noteq> 0 then Inr s1
                  else (case decode output of
                          Inl e \<Rightarrow> Inl e
                        | Inr text \<Rightarrow>
                            (case versions (split_on 10 text) of
                               Inl e \<Rightarrow> Inl e
                             | Inr vs \<Rightarrow>
                                 if length vs = 1
                                 then Inr (setitem key (Str (strip (hd vs))) s1)
                                 else Inr s1))))"

text \<open>
  \<^verbatim>\<open>get_from_image\<close>. The rendering \<^verbatim>\<open>"{} GB".format(round(v / 1024 ** 3, 2))\<close> is
  floating-point arithmetic; it enters as the parameter \<open>size_gb\<close>, which raises where
  the division does.
\<close>

definition get_from_image ::
  "(val \<Rightarrow> error + str) \<Rightarrow> str \<Rightarrow> str option \<Rightarrow> extractor \<Rightarrow> error + extractor" where
  "get_from_image size_gb lookup key0 s =
     (let key = default_key lookup key0;
          s1 = setitem key (Str ERROR) s
      in case container s1 of
           None \<Rightarrow> Inl AttributeError
         | Some c \<Rightarrow>
             (let attrs = image_attrs c;
                  s2 = (case attrs lookup of Some v \<Rightarrow> setitem key v s1 | None \<Rightarrow> s1)
              in if lookup = lit ''Size''
                 then (case attrs lookup of
                         None \<Rightarrow> Inl KeyError
                       | Some v \<Rightarrow>
                           (case size_gb v of
                              Inl e \<Rightarrow> Inl e
                            | Inr t \<Rightarrow> Inr (setitem key (Str t) s2)))
                 else Inr s2))"

definition get_from_cmd :: "str \<Rightarrow> str \<Rightarrow> extractor \<Rightarrow> error + extractor" where
  "get_from_cmd cmd key s =
     (let s1 = setitem key (Str ERROR) s
      in case container s1 of
           None \<Rightarrow> Inl AttributeError
         | Some c \<Rightarrow>
             (case exec_run c (shell_command cmd) of
                (err, output) \<Rightarrow>
                  if err \<noteq> 1
                  then (case decode output of
                          Inl e \<Rightarrow> Inl e
                        | Inr text \<Rightarrow>
                            (let s2 = setitem key (Str (strip text)) s1
                             in if key = lit ''sm''
                                then Inr (setitem key (Str (join (lit '', '') (split_ws text))) s2)
                                else Inr s2))
                  else (case decode output of
                          Inl e \<Rightarrow> Inl e
                        | Inr logged \<Rightarrow> Inr s1)))"

definition insert_snippet :: "str \<Rightarrow> val \<Rightarrow> extractor \<Rightarrow> extractor" where
  "insert_snippet key snip s = setitem key snip s"

text \<open>
  \<^verbatim>\<open>__init__\<close>: a new empty dictionary becomes \<^verbatim>\<open>self.contdata\<close> and, through the
  \<^verbatim>\<open>defaultdict\<close>, the entry \<^verbatim>\<open>self.data[name][release]\<close>. No container is attached yet.
\<close>

definition init :: "str \<Rightarrow> str \<Rightarrow> str \<Rightarrow> bool \<Rightarrow> extractor" where
  "init name rel file frc =
     \<lparr>container_name = name, release = rel, datafile = file, force = frc,
      container = None, data = [name \<mapsto> [rel \<mapsto> Lit 0]], contdata = Lit 0,
      heap = (\<lambda>a. Map.empty), fresh = 1\<rparr>"

text \<open>A container that answers every command with the status \<open>st\<close> and the output \<open>out\<close>.\<close>

definition answering :: "int \<Rightarrow> bytes \<Rightarrow> container" where
  "answering st out = \<lparr>exec_run = (\<lambda>cmd. (st, out)), image_attrs = Map.empty\<rparr>"

text \<open>The value of a field of the working record after a call, \<open>None\<close> when the call raised.\<close>

definition field_after :: "str \<Rightarrow> error + extractor \<Rightarrow> val option option" where
  "field_after key res = (case res of Inl e \<Rightarrow> None | Inr s \<Rightarrow> Some (heap s (contdata s) key))"

text \<open>The lines of a \<^verbatim>\<open>pip show\<close> output that start with \<^verbatim>\<open>Version:\<close>.\<close>

definition version_lines :: "str \<Rightarrow> str list" where
  "version_lines text = filter (\<lambda>l. startswith l (lit ''Version:'')) (split_on 10 text)"

section \<open>The record store\<close>

text \<open>
  The JSON text of the store file denotes a store: container name, then release, then
  field record. A file system maps the paths that exist to what the files hold.
\<close>

type_synonym store = "str \<rightharpoonup> (str \<rightharpoonup> fields)"

type_synonym files = "str \<rightharpoonup> store"

definition entry :: "store \<Rightarrow> str \<Rightarrow> str \<Rightarrow> fields option" where
  "entry st c r = (case st c of None \<Rightarrow> None | Some rels \<Rightarrow> rels r)"

text \<open>
  \<^verbatim>\<open>self.data = json.load(f)\<close>: one allocation, which makes a new dictionary for every
  entry of the file.
\<close>

definition json_load :: "store \<Rightarrow> extractor \<Rightarrow> extractor" where
  "json_load st s =
     s\<lparr>data := (\<lambda>c. case st c of
                       None \<Rightarrow> None
                     | Some rels \<Rightarrow>
                         Some (\<lambda>r. case rels r of
                                      None \<Rightarrow> None
                                    | Some fds \<Rightarrow> Some (Loaded (fresh s) c r))),
       heap := (\<lambda>a. case a of
                       Lit n \<Rightarrow> heap s a
                     | Loaded n c r \<Rightarrow>
                         if n = fresh s
                         then (case entry st c r of None \<Rightarrow> heap s a | Some fds \<Rightarrow> fds)
                         else heap s a),
       fresh := fresh s + 1\<rparr>"

text \<open>
  \<^verbatim>\<open>from_json\<close>. The lookups \<^verbatim>\<open>self.data[...]\<close> raise \<^verbatim>\<open>KeyError\<close> on a missing key.
\<close>

definition from_json :: "files \<Rightarrow> extractor \<Rightarrow> error + extractor" where
  "from_json fs s =
     (case fs (datafile s) of
        None \<Rightarrow> Inr s
      | Some st \<Rightarrow>
          (let s1 = json_load st s;
               s2 = (if data s1 (container_name s1) = None
                     then s1\<lparr>data := (data s1)(container_name s1 \<mapsto> Map.empty)\<rparr>
                     else s1)
           in case data s2 (container_name s2) of
                None \<Rightarrow> Inl KeyError
              | Some rels \<Rightarrow>
                  (let s3 = (if rels (release s2) = None \<or> force s2
                             then s2\<lparr>data := (data s2)(container_name s2 \<mapsto>
                                                rels(release s2 \<mapsto> Lit (fresh s2))),
                                     heap := (heap s2)(Lit (fresh s2) := Map.empty),
                                     fresh := fresh s2 + 1\<rparr>
                             else s2)
                   in case data s3 (container_name s3) of
                        None \<Rightarrow> Inl KeyError
                      | Some rels3 \<Rightarrow>
                          (case rels3 (release s3) of
                             None \<Rightarrow> Inl KeyError
                           | Some a \<Rightarrow> Inr (s3\<lparr>contdata := a\<rparr>)))))"

text \<open>
  \<^verbatim>\<open>to_json\<close> serialises \<^verbatim>\<open>self.data\<close>: every leaf is replaced by the dictionary at its
  address. The text \<^verbatim>\<open>json.dumps\<close> writes is represented by the store it denotes.
\<close>

definition to_json :: "extractor \<Rightarrow> store" where
  "to_json s =
     (\<lambda>c. case data s c of
             None \<Rightarrow> None
           | Some rels \<Rightarrow>
               Some (\<lambda>r. case rels r of None \<Rightarrow> None | Some a \<Rightarrow> Some (heap s a)))"

definition to_json_file :: "files \<Rightarrow> extractor \<Rightarrow> files" where
  "to_json_file fs s = fs(datafile s \<mapsto> to_json s)"

definition already_present :: "files \<Rightarrow> extractor \<Rightarrow> bool" where
  "already_present fs s =
     (if fs (datafile s) = None then False
      else (case data s (container_name s) of
              None \<Rightarrow> False
            | Some rels \<Rightarrow>
                (case rels (release s) of
                   None \<Rightarrow> False
                 | Some a \<Rightarrow> if heap s a = Map.empty then False else True)))"

text \<open>
  The calls that work on the record of an extractor, and a sequence of them as the main
  loop issues it: the first exception ends the sequence.
\<close>

datatype call =
    Use_container container
  | Insert_snippet str val
  | Get_from_envfile str str "str option"
  | Get_from_env str "str option"
  | Get_from_pip str "str option"
  | Get_from_image str "str option"
  | Get_from_cmd str str

fun perform :: "(val \<Rightarrow> error + str) \<Rightarrow> call \<Rightarrow> extractor \<Rightarrow> error + extractor" where
  "perform size_gb (Use_container c) s = Inr (use_container c s)"
| "perform size_gb (Insert_snippet key snip) s = Inr (insert_snippet key snip s)"
| "perform size_gb (Get_from_envfile path lookup key0) s = get_from_envfile path lookup key0 s"
| "perform size_gb (Get_from_env lookup key0) s = get_from_env lookup key0 s"
| "perform size_gb (Get_from_pip lookup key0) s = get_from_pip lookup key0 s"
| "perform size_gb (Get_from_image lookup key0) s = get_from_image size_gb lookup key0 s"
| "perform size_gb (Get_from_cmd cmd key) s = get_from_cmd cmd key s"

fun perform_all :: "(val \<Rightarrow> error + str) \<Rightarrow> call list \<Rightarrow> extractor \<Rightarrow> error + extractor" where
  "perform_all size_gb [] s = Inr s"
| "perform_all size_gb (x # xs) s =
     (case perform size_gb x s of Inl e \<Rightarrow> Inl e | Inr s' \<Rightarrow> perform_all size_gb xs s')"

text \<open>The address stored at \<^verbatim>\<open>self.data[c][r]\<close>, if both keys exist.\<close>

definition leaf :: "extractor \<Rightarrow> str \<Rightarrow> str \<Rightarrow> addr option" where
  "leaf s c r = (case data s c of None \<Rightarrow> None | Some rels \<Rightarrow> rels r)"

text \<open>
  \<^verbatim>\<open>self.contdata\<close> and \<^verbatim>\<open>self.data[self.container_name][self.release]\<close> are the same
  object.
\<close>

definition aliased :: "extractor \<Rightarrow> bool" where
  "aliased s =
     (case data s (container_name s) of
        None \<Rightarrow> False
      | Some rels \<Rightarrow> rels (release s) = Some (contdata s))"

section \<open>The start of \<^verbatim>\<open>main\<close>\<close>

text \<open>
  \<^verbatim>\<open>Path.stat\<close> raises \<^verbatim>\<open>FileNotFoundError\<close> when nothing exists at the path; otherwise
  it gives the modification time, which the parameter \<open>mtime\<close> supplies.
\<close>

definition stat_mtime :: "files \<Rightarrow> (str \<Rightarrow> nat) \<Rightarrow> str \<Rightarrow> error + nat" where
  "stat_mtime fs mtime p = (case fs p of None \<Rightarrow> Inl FileNotFoundError | Some st \<Rightarrow> Inr (mtime p))"

text \<open>
  \<^verbatim>\<open>main\<close> up to its first access to the file system. \<open>jsonfile\<close> is the path
  \<^verbatim>\<open>scriptdir / "data.json"\<close> of the store file beside the script, which \<^verbatim>\<open>main\<close>
  computes first; then comes \<^verbatim>\<open>jsonfile_start_mtime = jsonfile.stat().st_mtime\<close>, before
  the command-line options are looked at. Everything \<^verbatim>\<open>main\<close> does after that statement
  is the parameter \<open>rest\<close>, which is given the modification time.
\<close>

definition main :: "(nat \<Rightarrow> error + 'a) \<Rightarrow> files \<Rightarrow> (str \<Rightarrow> nat) \<Rightarrow> str \<Rightarrow> error + 'a" where
  "main rest fs mtime jsonfile =
     (case stat_mtime fs mtime jsonfile of
        Inl e \<Rightarrow> Inl e
      | Inr jsonfile_start_mtime \<Rightarrow> rest jsonfile_start_mtime)"

section \<open>The publish workflow\<close>

subsection \<open>The source-hosting collaborator\<close>

text \<open>
  Modelled from the spec: the source-hosting collaborator (the repository object of the
  GitHub client library), which is not part of the repository. A revision is
  represented by the tree of files it holds, a repository by the tips of its refs and
  the pull requests opened so far. The operations are those of the specification's
  list of consumed interfaces: get-branch, create-branch-ref (which fails on a name
  that exists), get-file, update-file, compare (the set of files that differ),
  delete-ref and create-pull-request (which may fail).
\<close>

type_synonym tree = "str \<rightharpoonup> str"

record pull =
  title :: str
  body :: str
  head :: str
  base :: str

record repo =
  refs :: "str \<rightharpoonup> tree"
  pulls :: "pull list"
  accepts_pulls :: bool

definition get_branch :: "repo \<Rightarrow> str \<Rightarrow> error + tree" where
  "get_branch r name =
     (case refs r (lit ''refs/heads/'' @ name) of None \<Rightarrow> Inl GithubException | Some t \<Rightarrow> Inr t)"

definition create_git_ref :: "repo \<Rightarrow> str \<Rightarrow> tree \<Rightarrow> error + repo" where
  "create_git_ref r ref sha =
     (case refs r ref of
        Some t \<Rightarrow> Inl GithubException
      | None \<Rightarrow> Inr (r\<lparr>refs := (refs r)(ref \<mapsto> sha)\<rparr>))"

definition get_contents :: "repo \<Rightarrow> str \<Rightarrow> str \<Rightarrow> error + str" where
  "get_contents r path ref =
     (case refs r ref of
        None \<Rightarrow> Inl GithubException
      | Some t \<Rightarrow> (case t path of None \<Rightarrow> Inl GithubException | Some c \<Rightarrow> Inr c))"

definition update_file :: "repo \<Rightarrow> str \<Rightarrow> str \<Rightarrow> str \<Rightarrow> error + repo \<times> tree" where
  "update_file r path content branch =
     (case refs r branch of
        None \<Rightarrow> Inl GithubException
      | Some t \<Rightarrow> Inr (r\<lparr>refs := (refs r)(branch \<mapsto> t(path \<mapsto> content))\<rparr>, t(path \<mapsto> content)))"

definition compare_files :: "tree \<Rightarrow> tree \<Rightarrow> str set" where
  "compare_files base_sha head_sha = {p. base_sha p \<noteq> head_sha p}"

definition delete_ref :: "repo \<Rightarrow> str \<Rightarrow> repo" where
  "delete_ref r ref = r\<lparr>refs := (refs r)(ref := None)\<rparr>"

definition create_pull :: "repo \<Rightarrow> pull \<Rightarrow> error + repo" where
  "create_pull r p =
     (if accepts_pulls r then Inr (r\<lparr>pulls := pulls r @ [p]\<rparr>) else Inl GithubException)"

subsection \<open>\<^verbatim>\<open>open_pr\<close>\<close>

text \<open>\<^verbatim>\<open>str(counter)\<close>: the decimal digits of a natural number.\<close>

fun str_of_nat :: "nat \<Rightarrow> str" where
  "str_of_nat n = (if n < 10 then [48 + n] else str_of_nat (n div 10) @ [48 + n mod 10])"

declare str_of_nat.simps [simp del]

text \<open>\<^verbatim>\<open>pr_branch = "docs-smx-" + release.replace(".", "")\<close>.\<close>

definition pr_branch :: "str \<Rightarrow> str" where
  "pr_branch rel = lit ''docs-smx-'' @ remove_char 46 rel"

text \<open>\<^verbatim>\<open>remote_branch = f"refs/heads/{pr_branch}-{counter}"\<close>.\<close>

definition remote_branch :: "str \<Rightarrow> nat \<Rightarrow> str" where
  "remote_branch rel counter = lit ''refs/heads/'' @ pr_branch rel @ lit ''-'' @ str_of_nat counter"

text \<open>
  The \<^verbatim>\<open>while True\<close> loop of \<^verbatim>\<open>open_pr\<close>, entered with the value of \<^verbatim>\<open>counter\<close>. The
  argument \<^verbatim>\<open>sha\<close> is evaluated before \<^verbatim>\<open>create_git_ref\<close> is called, inside the \<^verbatim>\<open>try\<close>.
  Only a \<^verbatim>\<open>GithubException\<close> is caught; the bare \<^verbatim>\<open>raise\<close> raises it again.
\<close>

function create_branch :: "repo \<Rightarrow> str \<Rightarrow> nat \<Rightarrow> error + repo \<times> str" where
  "create_branch r rel counter =
     (case (case get_branch r (lit ''main'') of
              Inl e \<Rightarrow> Inl e
            | Inr sha \<Rightarrow> create_git_ref r (remote_branch rel counter) sha) of
        Inr r' \<Rightarrow> Inr (r', remote_branch rel counter)
      | Inl e \<Rightarrow>
          if e = GithubException
          then (if counter + 1 > 25 then Inl e else create_branch r rel (counter + 1))
          else Inl e)"
  by pat_completeness auto
termination
  by (relation "measure (\<lambda>(r, rel, counter). 26 - counter)") auto

declare create_branch.simps [simp del]

text \<open>
  \<^verbatim>\<open>open_pr\<close>. \<open>token\<close> is the value of the environment variable \<^verbatim>\<open>GH_TOKEN\<close>, \<open>content\<close>
  what reading the local file at \<open>path\<close> gives (\<open>None\<close> when there is no such file).
  The result is the repository after the call, or the exception that leaves
  \<^verbatim>\<open>open_pr\<close>; a failure of \<^verbatim>\<open>create_pull\<close> is caught and logged.
\<close>

definition open_pr :: "str option \<Rightarrow> str option \<Rightarrow> repo \<Rightarrow> str \<Rightarrow> str \<Rightarrow> error + repo" where
  "open_pr token content r path rel =
     (case token of
        None \<Rightarrow> Inr r
      | Some tk \<Rightarrow>
          (case content of
             None \<Rightarrow> Inl FileNotFoundError
           | Some text \<Rightarrow>
               (case create_branch r rel 1 of
                  Inl e \<Rightarrow> Inl e
                | Inr (r1, remote_ref) \<Rightarrow>
                    (case get_contents r1 path remote_ref of
                       Inl e \<Rightarrow> Inl e
                     | Inr f \<Rightarrow>
                         (case update_file r1 path text remote_ref of
                            Inl e \<Rightarrow> Inl e
                          | Inr (r2, commit) \<Rightarrow>
                              (case get_branch r2 (lit ''main'') of
                                 Inl e \<Rightarrow> Inl e
                               | Inr main_sha \<Rightarrow>
                                   if compare_files main_sha commit = {}
                                   then Inr (delete_ref r2 remote_ref)
                                   else (case create_pull r2
                                                \<lparr>title = lit ''Support matrix updates for '' @ rel,
                                                 body = lit ''Updates from containers'',
                                                 head = remote_ref, base = lit ''main''\<rparr> of
                                           Inl e \<Rightarrow> Inr r2
                                         | Inr r3 \<Rightarrow> Inr r3)))))))"

section \<open>Properties of the probes\<close>

subsection \<open>Auxiliary facts\<close>


lemma setitem_simps [simp]:
  "container (setitem k v s) = container s"
  "contdata (setitem k v s) = contdata s"
  "data (setitem k v s) = data s"
  "heap (setitem k v s) = (heap s)(contdata s := (heap s (contdata s))(k \<mapsto> v))"
  by (simp_all add: setitem_def)

lemma split_run_tokens:
  "list_all (\<lambda>c. \<not> is_space c) cur \<Longrightarrow>
     \<forall>t \<in> set (split_run cur s). t \<noteq> [] \<and> list_all (\<lambda>c. \<not> is_space c) t"
proof (induction s arbitrary: cur)
  case Nil
  then show ?case by simp
next
  case (Cons a s)
  have restart: "\<forall>t \<in> set (split_run [] s). t \<noteq> [] \<and> list_all (\<lambda>c. \<not> is_space c) t"
    using Cons.IH [of "[]"] by simp
  have extend: "\<forall>t \<in> set (split_run (cur @ [a]) s). t \<noteq> [] \<and> list_all (\<lambda>c. \<not> is_space c) t"
    if "\<not> is_space a"
    using Cons.IH [of "cur @ [a]"] Cons.prems that by simp
  show ?case
    using restart extend Cons.prems by auto
qed

lemma split_run_nonempty: "cur \<noteq> [] \<Longrightarrow> split_run cur s \<noteq> []"
  by (induction s arbitrary: cur) auto

lemma dropWhile_none: "list_all (\<lambda>c. \<not> P c) t \<Longrightarrow> dropWhile P t = t"
  by (cases t) simp_all

lemma strip_token: "list_all (\<lambda>c. \<not> is_space c) t \<Longrightarrow> strip t = t"
  by (simp add: strip_def dropWhile_none)

lemma version_line_tokens:
  assumes "startswith l (lit ''Version:'')"
  shows "split_ws l \<noteq> []"
proof -
  from assms obtain cs where l: "l = 86 # cs"
    by (cases l) (auto simp: startswith_def lit_def)
  have "\<not> is_space 86" by (simp add: is_space_def)
  then show ?thesis
    by (simp add: l split_ws_def split_run_nonempty)
qed

lemma versions_eq:
  "versions lines =
     Inr (map (\<lambda>l. last (split_ws l)) (filter (\<lambda>l. startswith l (lit ''Version:'')) lines))"
proof (induction lines)
  case Nil
  then show ?case by simp
next
  case (Cons l ls)
  show ?case
  proof (cases "startswith l (lit ''Version:'')")
    case True
    then obtain t ts where "split_ws l = t # ts"
      using version_line_tokens by (cases "split_ws l") auto
    with True Cons show ?thesis by simp
  next
    case False
    with Cons show ?thesis by simp
  qed
qed

lemma last_token_clean:
  assumes "split_ws l \<noteq> []"
  shows "strip (last (split_ws l)) = last (split_ws l)"
proof -
  have "last (split_ws l) \<in> set (split_run [] l)"
    using assms by (simp add: split_ws_def)
  then have "list_all (\<lambda>c. \<not> is_space c) (last (split_ws l))"
    using split_run_tokens [of "[]" l] by simp
  then show ?thesis by (rule strip_token)
qed


lemma get_from_pip_ok:
  assumes "container s = Some c" and "exec_run c (pip_command lookup) = (0, Utf8 text)"
  shows "get_from_pip lookup key0 s =
     Inr (if length (version_lines text) = 1
          then setitem (default_key lookup key0) (Str (last (split_ws (hd (version_lines text)))))
                 (setitem (default_key lookup key0) (Str ERROR) s)
          else setitem (default_key lookup key0) (Str ERROR) s)"
proof (cases "length (version_lines text) = 1")
  case True
  then obtain l where l: "version_lines text = [l]"
    by (cases "version_lines text") auto
  then have "l \<in> set (version_lines text)" by simp
  then have "startswith l (lit ''Version:'')" by (simp add: version_lines_def)
  then have "strip (last (split_ws l)) = last (split_ws l)"
    by (simp add: version_line_tokens last_token_clean)
  with assms l show ?thesis
    by (simp add: get_from_pip_def Let_def versions_eq version_lines_def [symmetric])
next
  case False
  with assms show ?thesis
    by (simp add: get_from_pip_def Let_def versions_eq version_lines_def [symmetric])
qed

subsection \<open>Parsing the output of \<^verbatim>\<open>pip show\<close>\<close>

text \<open>
  C7, as amended. A pip probe whose command succeeds (status 0) and whose output is valid
  UTF-8 looks at the lines of the decoded output that begin with \<^verbatim>\<open>Version:\<close>. If there
  is exactly one, the field is set to the last whitespace-separated token of that line;
  with none or more than one, the field keeps the sentinel \<^verbatim>\<open>"Not applicable"\<close>. In both
  cases the probe returns normally.
\<close>

theorem pip_version_parsing:
  assumes "container s = Some c" and "exec_run c (pip_command lookup) = (0, Utf8 text)"
  shows "field_after (default_key lookup key0) (get_from_pip lookup key0 s) =
     Some (Some (Str (if length (version_lines text) = 1
                      then last (split_ws (hd (version_lines text))) else ERROR)))"
  using get_from_pip_ok [OF assms, of key0] by (simp add: field_after_def)

text \<open>
  The examples of the specification: an output whose only version line is
  \<^verbatim>\<open>Version: 1.2.3\<close> yields \<^verbatim>\<open>1.2.3\<close>; two version lines, or none, yield the sentinel.
\<close>

theorem pip_version_parsing_witness:
  "field_after (lit ''rmm'')
     (get_from_pip (lit ''rmm'') None
        (use_container (answering 0 (Utf8 (lit ''Name: rmm'' @ [10] @ lit ''Version: 1.2.3'' @ [10] @ lit ''Summary: x'')))
           (init (lit ''merlin-training'') (lit ''22.02'') (lit ''data.json'') False)))
     = Some (Some (Str (lit ''1.2.3'')))
   \<and> field_after (lit ''tf'')
     (get_from_pip (lit ''tensorflow'') (Some (lit ''tf''))
        (use_container (answering 0 (Utf8 (lit ''Version: 1.2.3'' @ [10] @ lit ''Version: 1.2.4'')))
           (init (lit ''merlin-training'') (lit ''22.02'') (lit ''data.json'') False)))
     = Some (Some (Str (lit ''Not applicable'')))
   \<and> field_after (lit ''rmm'')
     (get_from_pip (lit ''rmm'') None
        (use_container (answering 0 (Utf8 (lit ''WARNING: Package(s) not found: rmm'')))
           (init (lit ''merlin-training'') (lit ''22.02'') (lit ''data.json'') False)))
     = Some (Some (Str (lit ''Not applicable'')))"
  using
    pip_version_parsing [of "use_container (answering 0 (Utf8 (lit ''Name: rmm'' @ [10] @ lit ''Version: 1.2.3'' @ [10] @ lit ''Summary: x''))) (init (lit ''merlin-training'') (lit ''22.02'') (lit ''data.json'') False)"
      "answering 0 (Utf8 (lit ''Name: rmm'' @ [10] @ lit ''Version: 1.2.3'' @ [10] @ lit ''Summary: x''))" "lit ''rmm''" _ None]
    pip_version_parsing [of "use_container (answering 0 (Utf8 (lit ''Version: 1.2.3'' @ [10] @ lit ''Version: 1.2.4''))) (init (lit ''merlin-training'') (lit ''22.02'') (lit ''data.json'') False)"
      "answering 0 (Utf8 (lit ''Version: 1.2.3'' @ [10] @ lit ''Version: 1.2.4''))" "lit ''tensorflow''" _ "Some (lit ''tf'')"]
    pip_version_parsing [of "use_container (answering 0 (Utf8 (lit ''WARNING: Package(s) not found: rmm''))) (init (lit ''merlin-training'') (lit ''22.02'') (lit ''data.json'') False)"
      "answering 0 (Utf8 (lit ''WARNING: Package(s) not found: rmm''))" "lit ''rmm''" _ None]
  by (simp add: use_container_def answering_def init_def version_lines_def split_on_def
        split_ws_def startswith_def is_space_def lit_def ERROR_def default_key_def)

text \<open>
  Without the condition on the output the claim fails: the command succeeds with status
  0, but its output is not valid UTF-8, and \<^verbatim>\<open>output.decode()\<close> in the list comprehension
  raises. The probe does not return, and no version is stored.
\<close>

theorem pip_undecodable_output_raises:
  "get_from_pip (lit ''rmm'') None
     (use_container (answering 0 NotUtf8)
        (init (lit ''merlin-training'') (lit ''22.02'') (lit ''data.json'') False))
   = Inl UnicodeDecodeError
   \<and> field_after (lit ''rmm'')
     (get_from_pip (lit ''rmm'') None
        (use_container (answering 0 NotUtf8)
           (init (lit ''merlin-training'') (lit ''22.02'') (lit ''data.json'') False)))
   = None"
  by (simp add: get_from_pip_def field_after_def use_container_def answering_def init_def
        Let_def)

subsection \<open>The status convention\<close>

text \<open>
  C3, as amended. \<^verbatim>\<open>get_from_envfile\<close>, \<^verbatim>\<open>get_from_env\<close> and \<^verbatim>\<open>get_from_cmd\<close> treat the
  execution as failed on its status only when the status equals 1: with status 1 the
  field keeps the sentinel, and with any other status (0 and the codes above 1 included)
  the output is taken (for the two environment probes unless it is whitespace only).
  \<^verbatim>\<open>get_from_pip\<close> differs: it treats every status other than 0 as failed.
\<close>

theorem status_convention:
  assumes "container s = Some c"
  shows
    "(exec_run c (envfile_command path lookup) = (st, Utf8 t) \<and> st \<noteq> 1 \<longrightarrow>
        field_after (default_key lookup key0) (get_from_envfile path lookup key0 s) =
          Some (Some (Str (if isspace t then ERROR else strip (remove_char 34 t))))) \<and>
     (exec_run c (env_command lookup) = (st, Utf8 t) \<and> st \<noteq> 1 \<longrightarrow>
        field_after (default_key lookup key0) (get_from_env lookup key0 s) =
          Some (Some (Str (if isspace t then ERROR else strip (remove_char 34 t))))) \<and>
     (exec_run c (shell_command cmd) = (st, Utf8 t) \<and> st \<noteq> 1 \<longrightarrow>
        field_after key (get_from_cmd cmd key s) =
          Some (Some (Str (if key = lit ''sm'' then join (lit '', '') (split_ws t) else strip t)))) \<and>
     (exec_run c (envfile_command path lookup) = (1, Utf8 t) \<longrightarrow>
        field_after (default_key lookup key0) (get_from_envfile path lookup key0 s) =
          Some (Some (Str ERROR))) \<and>
     (exec_run c (env_command lookup) = (1, Utf8 t) \<longrightarrow>
        field_after (default_key lookup key0) (get_from_env lookup key0 s) =
          Some (Some (Str ERROR))) \<and>
     (exec_run c (shell_command cmd) = (1, Utf8 t) \<longrightarrow>
        field_after key (get_from_cmd cmd key s) = Some (Some (Str ERROR))) \<and>
     (exec_run c (pip_command lookup) = (st, out) \<and> st \<noteq> 0 \<longrightarrow>
        field_after (default_key lookup key0) (get_from_pip lookup key0 s) =
          Some (Some (Str ERROR)))"
  using assms
  by (simp add: get_from_envfile_def get_from_env_def get_from_cmd_def get_from_pip_def
        field_after_def Let_def)

theorem status_convention_witness:
  "field_after (lit ''triton'')
     (get_from_cmd (lit ''cat /opt/tritonserver/TRITON_VERSION'') (lit ''triton'')
        (use_container (answering 2 (Utf8 (lit ''2.19.0'' @ [10])))
           (init (lit ''merlin-inference'') (lit ''22.02'') (lit ''data.json'') False)))
     = Some (Some (Str (lit ''2.19.0'')))
   \<and> field_after (lit ''triton'')
     (get_from_cmd (lit ''cat /opt/tritonserver/TRITON_VERSION'') (lit ''triton'')
        (use_container (answering 1 (Utf8 (lit ''2.19.0'' @ [10])))
           (init (lit ''merlin-inference'') (lit ''22.02'') (lit ''data.json'') False)))
     = Some (Some (Str (lit ''Not applicable'')))
   \<and> field_after (lit ''cuda'')
     (get_from_env (lit ''CUDA_VERSION'') (Some (lit ''cuda''))
        (use_container (answering 0 (Utf8 (lit ''11.6'' @ [10])))
           (init (lit ''merlin-inference'') (lit ''22.02'') (lit ''data.json'') False)))
     = Some (Some (Str (lit ''11.6'')))
   \<and> field_after (lit ''cuda'')
     (get_from_env (lit ''CUDA_VERSION'') (Some (lit ''cuda''))
        (use_container (answering 0 (Utf8 [10]))
           (init (lit ''merlin-inference'') (lit ''22.02'') (lit ''data.json'') False)))
     = Some (Some (Str (lit ''Not applicable'')))"
  using
    status_convention [of "use_container (answering 2 (Utf8 (lit ''2.19.0'' @ [10]))) (init (lit ''merlin-inference'') (lit ''22.02'') (lit ''data.json'') False)"
      "answering 2 (Utf8 (lit ''2.19.0'' @ [10]))" _ _ 2 "lit ''2.19.0'' @ [10]" _ "lit ''cat /opt/tritonserver/TRITON_VERSION''" "lit ''triton''"]
    status_convention [of "use_container (answering 1 (Utf8 (lit ''2.19.0'' @ [10]))) (init (lit ''merlin-inference'') (lit ''22.02'') (lit ''data.json'') False)"
      "answering 1 (Utf8 (lit ''2.19.0'' @ [10]))" _ _ _ "lit ''2.19.0'' @ [10]" _ "lit ''cat /opt/tritonserver/TRITON_VERSION''" "lit ''triton''"]
    status_convention [of "use_container (answering 0 (Utf8 (lit ''11.6'' @ [10]))) (init (lit ''merlin-inference'') (lit ''22.02'') (lit ''data.json'') False)"
      "answering 0 (Utf8 (lit ''11.6'' @ [10]))" _ "lit ''CUDA_VERSION''" 0 "lit ''11.6'' @ [10]" "Some (lit ''cuda'')"]
    status_convention [of "use_container (answering 0 (Utf8 [10])) (init (lit ''merlin-inference'') (lit ''22.02'') (lit ''data.json'') False)"
      "answering 0 (Utf8 [10])" _ "lit ''CUDA_VERSION''" 0 "[10]" "Some (lit ''cuda'')"]
  by (simp add: use_container_def answering_def init_def isspace_def strip_def remove_char_def
        is_space_def lit_def ERROR_def default_key_def)

text \<open>
  The claim as stated fails for \<^verbatim>\<open>get_from_pip\<close>: with status 2, which is not 1, the
  probe keeps the sentinel although the output holds a version line, which status 0
  would have stored.
\<close>

theorem pip_rejects_status_2:
  "field_after (lit ''rmm'')
     (get_from_pip (lit ''rmm'') None
        (use_container (answering 2 (Utf8 (lit ''Version: 1.2.3'')))
           (init (lit ''merlin-training'') (lit ''22.02'') (lit ''data.json'') False)))
     = Some (Some (Str ERROR))
   \<and> field_after (lit ''rmm'')
     (get_from_pip (lit ''rmm'') None
        (use_container (answering 0 (Utf8 (lit ''Version: 1.2.3'')))
           (init (lit ''merlin-training'') (lit ''22.02'') (lit ''data.json'') False)))
     = Some (Some (Str (lit ''1.2.3'')))"
  by (simp add: get_from_pip_def field_after_def use_container_def answering_def init_def
        split_on_def split_ws_def startswith_def strip_def is_space_def lit_def ERROR_def
        default_key_def Let_def)

subsection \<open>Empty and blank outputs of the environment probes\<close>

text \<open>
  C8. An output that is whitespace only is treated as a failure, and an accepted output
  is stored with its double quotes removed and its surrounding whitespace stripped
  (shown with the status convention above). The empty output is not treated as a failure:
  \<^verbatim>\<open>"".isspace()\<close> is false, so with a status other than 1 the probe stores the empty
  string in place of the sentinel.
\<close>

theorem empty_output_is_stored:
  "field_after (lit ''os'')
     (get_from_envfile (lit ''/etc/os-release'') (lit ''PRETTY_NAME'') (Some (lit ''os''))
        (use_container (answering 0 (Utf8 (lit '''')))
           (init (lit ''merlin-training'') (lit ''22.02'') (lit ''data.json'') False)))
     = Some (Some (Str (lit '''')))
   \<and> field_after (lit ''cuda'')
     (get_from_env (lit ''CUDA_VERSION'') (Some (lit ''cuda''))
        (use_container (answering 0 (Utf8 (lit '''')))
           (init (lit ''merlin-training'') (lit ''22.02'') (lit ''data.json'') False)))
     = Some (Some (Str (lit '''')))"
  by (simp add: get_from_envfile_def get_from_env_def field_after_def use_container_def
        answering_def init_def isspace_def strip_def remove_char_def lit_def default_key_def
        Let_def)

subsection \<open>Failing probes\<close>

text \<open>
  C2, as amended. When the underlying operation fails in a way the probe looks for, the
  probe returns normally and its whole effect is to write the sentinel to its own key:
  \<^item> \<^verbatim>\<open>get_from_envfile\<close> and \<^verbatim>\<open>get_from_env\<close>, when the output is valid UTF-8 and the
    status is 1 or the output is whitespace only;
  \<^item> \<^verbatim>\<open>get_from_pip\<close>, when the status is not 0, or when the status is 0 and the output is
    valid UTF-8 without exactly one version line;
  \<^item> \<^verbatim>\<open>get_from_image\<close>, when the attribute is missing and is not \<^verbatim>\<open>Size\<close>;
  \<^item> \<^verbatim>\<open>get_from_cmd\<close>, when the status is 1 and the output is valid UTF-8.
  The last lines say what that effect is: the key holds the sentinel, every other key of
  the working record and every other record is as before, and so are the store and the
  attached container, so that the next probe runs on them.
\<close>

theorem probe_failure_isolated:
  assumes "container s = Some c"
  shows
    "(exec_run c (envfile_command path lookup) = (st, Utf8 t) \<and> (st = 1 \<or> isspace t) \<longrightarrow>
        get_from_envfile path lookup key0 s = Inr (setitem (default_key lookup key0) (Str ERROR) s)) \<and>
     (exec_run c (env_command lookup) = (st, Utf8 t) \<and> (st = 1 \<or> isspace t) \<longrightarrow>
        get_from_env lookup key0 s = Inr (setitem (default_key lookup key0) (Str ERROR) s)) \<and>
     (exec_run c (pip_command lookup) = (st, out) \<and> st \<noteq> 0 \<longrightarrow>
        get_from_pip lookup key0 s = Inr (setitem (default_key lookup key0) (Str ERROR) s)) \<and>
     (exec_run c (pip_command lookup) = (0, Utf8 t) \<and> length (version_lines t) \<noteq> 1 \<longrightarrow>
        get_from_pip lookup key0 s = Inr (setitem (default_key lookup key0) (Str ERROR) s)) \<and>
     (image_attrs c lookup = None \<and> lookup \<noteq> lit ''Size'' \<longrightarrow>
        get_from_image size_gb lookup key0 s = Inr (setitem (default_key lookup key0) (Str ERROR) s)) \<and>
     (exec_run c (shell_command cmd) = (1, Utf8 t) \<longrightarrow>
        get_from_cmd cmd key s = Inr (setitem key (Str ERROR) s)) \<and>
     heap (setitem key (Str ERROR) s) (contdata s) key = Some (Str ERROR) \<and>
     (\<forall>k. k \<noteq> key \<longrightarrow> heap (setitem key (Str ERROR) s) (contdata s) k = heap s (contdata s) k) \<and>
     (\<forall>a. a \<noteq> contdata s \<longrightarrow> heap (setitem key (Str ERROR) s) a = heap s a) \<and>
     contdata (setitem key (Str ERROR) s) = contdata s \<and>
     data (setitem key (Str ERROR) s) = data s \<and>
     container (setitem key (Str ERROR) s) = container s"
proof -
  have envfile: "get_from_envfile path lookup key0 s = Inr (setitem (default_key lookup key0) (Str ERROR) s)"
    if "exec_run c (envfile_command path lookup) = (st, Utf8 t)" and "st = 1 \<or> isspace t"
    using assms that by (auto simp: get_from_envfile_def Let_def)
  have env: "get_from_env lookup key0 s = Inr (setitem (default_key lookup key0) (Str ERROR) s)"
    if "exec_run c (env_command lookup) = (st, Utf8 t)" and "st = 1 \<or> isspace t"
    using assms that by (auto simp: get_from_env_def Let_def)
  have pip_status: "get_from_pip lookup key0 s = Inr (setitem (default_key lookup key0) (Str ERROR) s)"
    if "exec_run c (pip_command lookup) = (st, out)" and "st \<noteq> 0"
    using assms that by (simp add: get_from_pip_def Let_def)
  have pip_lines: "get_from_pip lookup key0 s = Inr (setitem (default_key lookup key0) (Str ERROR) s)"
    if "exec_run c (pip_command lookup) = (0, Utf8 t)" and "length (version_lines t) \<noteq> 1"
    using get_from_pip_ok [OF assms that(1), of key0] that(2) by simp
  have image: "get_from_image size_gb lookup key0 s = Inr (setitem (default_key lookup key0) (Str ERROR) s)"
    if "image_attrs c lookup = None" and "lookup \<noteq> lit ''Size''"
    using assms that by (simp add: get_from_image_def Let_def)
  have cmd: "get_from_cmd cmd key s = Inr (setitem key (Str ERROR) s)"
    if "exec_run c (shell_command cmd) = (1, Utf8 t)"
    using assms that by (simp add: get_from_cmd_def Let_def)
  show ?thesis
    using envfile env pip_status pip_lines image cmd by simp
qed

theorem probe_failure_isolated_witness:
  "get_from_cmd (lit ''cat /opt/tritonserver/TRITON_VERSION'') (lit ''triton'')
     (use_container (answering 1 (Utf8 (lit ''cat: no such file'')))
        (insert_snippet (lit ''release'') (Str (lit ''22.02''))
           (init (lit ''merlin-training'') (lit ''22.02'') (lit ''data.json'') False)))
   = Inr (setitem (lit ''triton'') (Str ERROR)
       (use_container (answering 1 (Utf8 (lit ''cat: no such file'')))
          (insert_snippet (lit ''release'') (Str (lit ''22.02''))
             (init (lit ''merlin-training'') (lit ''22.02'') (lit ''data.json'') False))))
   \<and> field_after (lit ''release'')
     (get_from_image (\<lambda>v. Inl TypeError) (lit ''Os'') None
        (use_container (answering 0 (Utf8 (lit '''')))
           (insert_snippet (lit ''release'') (Str (lit ''22.02''))
              (init (lit ''merlin-training'') (lit ''22.02'') (lit ''data.json'') False))))
     = Some (Some (Str (lit ''22.02'')))
   \<and> field_after (lit ''Os'')
     (get_from_image (\<lambda>v. Inl TypeError) (lit ''Os'') None
        (use_container (answering 0 (Utf8 (lit '''')))
           (insert_snippet (lit ''release'') (Str (lit ''22.02''))
              (init (lit ''merlin-training'') (lit ''22.02'') (lit ''data.json'') False))))
     = Some (Some (Str (lit ''Not applicable'')))"
  using
    probe_failure_isolated [of "use_container (answering 1 (Utf8 (lit ''cat: no such file''))) (insert_snippet (lit ''release'') (Str (lit ''22.02'')) (init (lit ''merlin-training'') (lit ''22.02'') (lit ''data.json'') False))"
      "answering 1 (Utf8 (lit ''cat: no such file''))" _ _ _ "lit ''cat: no such file''" _ _ _ "lit ''cat /opt/tritonserver/TRITON_VERSION''" "lit ''triton''"]
    probe_failure_isolated [of "use_container (answering 0 (Utf8 (lit ''''))) (insert_snippet (lit ''release'') (Str (lit ''22.02'')) (init (lit ''merlin-training'') (lit ''22.02'') (lit ''data.json'') False))"
      "answering 0 (Utf8 (lit ''''))" _ "lit ''Os''" _ _ None _ "\<lambda>v. Inl TypeError"]
  by (simp add: use_container_def answering_def insert_snippet_def init_def field_after_def
        lit_def ERROR_def default_key_def)

text \<open>
  The claim as stated fails where the output of the command is not valid UTF-8: the
  probe has written the sentinel, but decoding the output raises and the exception
  leaves the probe. Here the command failed with status 1.
\<close>

theorem undecodable_output_raises:
  "get_from_cmd (lit ''cat /opt/tritonserver/TRITON_VERSION'') (lit ''triton'')
     (use_container (answering 1 NotUtf8)
        (init (lit ''merlin-inference'') (lit ''22.02'') (lit ''data.json'') False))
   = Inl UnicodeDecodeError
   \<and> get_from_env (lit ''CUDA_VERSION'') (Some (lit ''cuda''))
     (use_container (answering 1 NotUtf8)
        (init (lit ''merlin-inference'') (lit ''22.02'') (lit ''data.json'') False))
   = Inl UnicodeDecodeError"
  by (simp add: get_from_cmd_def get_from_env_def use_container_def answering_def init_def
        Let_def)

text \<open>
  \<^verbatim>\<open>get_from_image\<close> reads the attribute \<^verbatim>\<open>Size\<close> a second time outside its
  \<^verbatim>\<open>try\<close>: when the image has no such attribute, the \<^verbatim>\<open>KeyError\<close> leaves the probe.
\<close>

lemma missing_size_raises:
  assumes "container s = Some c" and "image_attrs c (lit ''Size'') = None"
  shows "get_from_image size_gb (lit ''Size'') key0 s = Inl KeyError"
  using assms by (simp add: get_from_image_def Let_def)

section \<open>Properties of the record store\<close>

subsection \<open>Auxiliary facts\<close>

lemma entry_to_json: "entry (to_json s) c r = map_option (heap s) (leaf s c r)"
  by (simp add: entry_def to_json_def leaf_def split: option.splits)

lemma aliased_leaf: "aliased s \<longleftrightarrow> leaf s (container_name s) (release s) = Some (contdata s)"
  by (simp add: aliased_def leaf_def split: option.splits)

text \<open>A call changes nothing but the dictionary at \<^verbatim>\<open>self.contdata\<close> and the attached container.\<close>

lemma setitem_frame:
  "container_name (setitem k v s) = container_name s \<and> release (setitem k v s) = release s \<and>
   datafile (setitem k v s) = datafile s \<and> force (setitem k v s) = force s \<and>
   fresh (setitem k v s) = fresh s"
  by (simp add: setitem_def)

lemma perform_frame:
  assumes "perform size_gb x s = Inr s'"
  shows "container_name s' = container_name s \<and> release s' = release s \<and>
         datafile s' = datafile s \<and> data s' = data s \<and> contdata s' = contdata s \<and>
         (\<forall>a. a \<noteq> contdata s \<longrightarrow> heap s' a = heap s a)"
proof (cases x)
  case (Use_container c)
  with assms show ?thesis by (auto simp: use_container_def)
next
  case (Insert_snippet key snip)
  with assms show ?thesis by (auto simp: insert_snippet_def setitem_frame)
next
  case (Get_from_envfile path lookup key0)
  with assms show ?thesis
    by (auto simp: get_from_envfile_def Let_def setitem_frame
          split: option.splits prod.splits sum.splits if_splits)
next
  case (Get_from_env lookup key0)
  with assms show ?thesis
    by (auto simp: get_from_env_def Let_def setitem_frame
          split: option.splits prod.splits sum.splits if_splits)
next
  case (Get_from_pip lookup key0)
  with assms show ?thesis
    by (auto simp: get_from_pip_def Let_def setitem_frame
          split: option.splits prod.splits sum.splits if_splits)
next
  case (Get_from_image lookup key0)
  with assms show ?thesis
    by (auto simp: get_from_image_def Let_def setitem_frame
          split: option.splits prod.splits sum.splits if_splits)
next
  case (Get_from_cmd cmd key)
  with assms show ?thesis
    by (auto simp: get_from_cmd_def Let_def setitem_frame
          split: option.splits prod.splits sum.splits if_splits)
qed

lemma perform_all_frame:
  "perform_all size_gb xs s = Inr s' \<Longrightarrow>
     container_name s' = container_name s \<and> release s' = release s \<and>
     datafile s' = datafile s \<and> data s' = data s \<and> contdata s' = contdata s \<and>
     (\<forall>a. a \<noteq> contdata s \<longrightarrow> heap s' a = heap s a)"
proof (induction xs arbitrary: s)
  case Nil
  then show ?case by simp
next
  case (Cons x xs)
  from Cons.prems obtain s1 where s1: "perform size_gb x s = Inr s1"
    and rest: "perform_all size_gb xs s1 = Inr s'"
    by (auto split: sum.splits)
  from perform_frame [OF s1] Cons.IH [OF rest] show ?case by simp
qed

lemma from_json_absent: "fs (datafile s) = None \<Longrightarrow> from_json fs s = Inr s"
  by (simp add: from_json_def)

text \<open>What \<^verbatim>\<open>from_json\<close> builds from a file that exists.\<close>

lemma from_json_present:
  assumes "fs (datafile s) = Some st"
  shows "\<exists>s'. from_json fs s = Inr s' \<and>
           container_name s' = container_name s \<and> release s' = release s \<and>
           datafile s' = datafile s \<and> force s' = force s \<and>
           leaf s' (container_name s) (release s) = Some (contdata s') \<and>
           (contdata s' = Lit (Suc (fresh s)) \<or>
            contdata s' = Loaded (fresh s) (container_name s) (release s)) \<and>
           (entry st (container_name s) (release s) = None \<or> force s \<longrightarrow>
              heap s' (contdata s') = Map.empty) \<and>
           (\<not> force s \<longrightarrow> (\<forall>fds. entry st (container_name s) (release s) = Some fds \<longrightarrow>
              heap s' (contdata s') = fds)) \<and>
           (\<forall>c r. (c, r) \<noteq> (container_name s, release s) \<longrightarrow>
              leaf s' c r = map_option (\<lambda>fds. Loaded (fresh s) c r) (entry st c r) \<and>
              heap s' (Loaded (fresh s) c r) =
                (case entry st c r of None \<Rightarrow> heap s (Loaded (fresh s) c r) | Some fds \<Rightarrow> fds))"
  using assms
  by (auto simp: from_json_def json_load_def Let_def leaf_def entry_def
        split: option.splits)

subsection \<open>The working record is the store's entry\<close>

text \<open>
  C10. After \<^verbatim>\<open>__init__\<close>, and after every \<^verbatim>\<open>from_json\<close> (which never raises),
  \<^verbatim>\<open>self.contdata\<close> is the object stored at \<^verbatim>\<open>self.data[container_name][release]\<close>; the
  probes and \<^verbatim>\<open>insert_snippet\<close> keep it so. Hence what \<^verbatim>\<open>to_json\<close> and \<^verbatim>\<open>to_json_file\<close>
  write for that entry is the working record with every write made to it, with no
  copying back.
\<close>

theorem working_record_aliased:
  "aliased (init name rel file frc) \<and>
   (aliased s \<longrightarrow> (\<exists>s'. from_json fs s = Inr s' \<and> aliased s')) \<and>
   (aliased s \<and> perform size_gb x s = Inr s' \<longrightarrow> aliased s') \<and>
   (aliased s \<and> perform_all size_gb xs s = Inr s' \<longrightarrow> aliased s') \<and>
   (aliased s \<longrightarrow>
      entry (to_json s) (container_name s) (release s) = Some (heap s (contdata s))) \<and>
   (aliased s \<longrightarrow>
      entry (to_json (setitem key v s)) (container_name s) (release s) =
        Some ((heap s (contdata s))(key \<mapsto> v))) \<and>
   to_json_file fs s (datafile s) = Some (to_json s)"
proof -
  have start: "aliased (init name rel file frc)"
    by (simp add: aliased_def init_def)
  have load: "\<exists>s'. from_json fs s = Inr s' \<and> aliased s'" if "aliased s"
  proof (cases "fs (datafile s)")
    case None
    with that show ?thesis by (simp add: from_json_absent)
  next
    case (Some st)
    from from_json_present [of fs s st] Some show ?thesis
      by (auto simp: aliased_leaf)
  qed
  have one: "aliased s'" if "aliased s" and "perform size_gb x s = Inr s'"
    using that perform_frame [OF that(2)] by (auto simp: aliased_def split: option.splits)
  have many: "aliased s'" if "aliased s" and "perform_all size_gb xs s = Inr s'"
    using that perform_all_frame [OF that(2)] by (auto simp: aliased_def split: option.splits)
  have dump: "entry (to_json s) (container_name s) (release s) = Some (heap s (contdata s))"
    if "aliased s"
    using that by (simp add: entry_to_json aliased_leaf)
  have written: "entry (to_json (setitem key v s)) (container_name s) (release s) =
      Some ((heap s (contdata s))(key \<mapsto> v))" if "aliased s"
    using that by (simp add: entry_to_json aliased_leaf leaf_def setitem_frame)
  have save: "to_json_file fs s (datafile s) = Some (to_json s)"
    by (simp add: to_json_file_def)
  show ?thesis
    using start load one many dump written save by blast
qed

theorem working_record_aliased_witness:
  "entry
     (to_json (setitem (lit ''release'') (Str (lit ''22.02''))
        (init (lit ''merlin-training'') (lit ''22.02'') (lit ''data.json'') False)))
     (lit ''merlin-training'') (lit ''22.02'')
   = Some [lit ''release'' \<mapsto> Str (lit ''22.02'')]"
  using working_record_aliased
    [of "lit ''merlin-training''" "lit ''22.02''" "lit ''data.json''" False
        "init (lit ''merlin-training'') (lit ''22.02'') (lit ''data.json'') False"
        _ _ _ _ _ "lit ''release''" "Str (lit ''22.02'')"]
  by (simp add: init_def)

subsection \<open>Merging into an existing store\<close>

text \<open>
  C1. Let the store file exist. An extractor for container \<open>c\<close> and release \<open>r\<close> is
  constructed and loads the file, which never raises; any sequence of probe and snippet
  calls that returns is run on it; then the store is saved. In the file saved, every
  entry other than \<open>(c, r)\<close> is exactly as in the file loaded (present with the same
  field record, and absent if it was absent), and the entry \<open>(c, r)\<close> is present: no
  entry has been deleted.
\<close>

theorem merge_keeps_other_entries:
  assumes "fs file = Some st"
  shows "\<exists>s1. from_json fs (init c r file frc) = Inr s1 \<and>
           (\<forall>calls s2. perform_all size_gb calls s1 = Inr s2 \<longrightarrow>
              to_json_file fs s2 file = Some (to_json s2) \<and>
              (\<forall>c' r'. (c', r') \<noteq> (c, r) \<longrightarrow> entry (to_json s2) c' r' = entry st c' r') \<and>
              entry (to_json s2) c r \<noteq> None)"
proof -
  let ?s0 = "init c r file frc"
  have there: "fs (datafile ?s0) = Some st"
    using assms by (simp add: init_def)
  from from_json_present [of fs ?s0 st] there obtain s1 where
    s1: "from_json fs ?s0 = Inr s1" and
    names: "container_name s1 = c" "release s1 = r" "datafile s1 = file" and
    own: "leaf s1 c r = Some (contdata s1)" and
    where_own: "contdata s1 = Lit (Suc (fresh ?s0)) \<or> contdata s1 = Loaded (fresh ?s0) c r" and
    others: "\<And>c' r'. (c', r') \<noteq> (c, r) \<Longrightarrow>
      leaf s1 c' r' = map_option (\<lambda>fds. Loaded (fresh ?s0) c' r') (entry st c' r') \<and>
      heap s1 (Loaded (fresh ?s0) c' r') =
        (case entry st c' r' of None \<Rightarrow> heap ?s0 (Loaded (fresh ?s0) c' r') | Some fds \<Rightarrow> fds)"
    by (auto simp: init_def)
  have "to_json_file fs s2 file = Some (to_json s2) \<and>
        (\<forall>c' r'. (c', r') \<noteq> (c, r) \<longrightarrow> entry (to_json s2) c' r' = entry st c' r') \<and>
        entry (to_json s2) c r \<noteq> None"
    if run: "perform_all size_gb calls s1 = Inr s2" for calls s2
  proof -
    note frame = perform_all_frame [OF run]
    have same_leaf: "leaf s2 c' r' = leaf s1 c' r'" for c' r'
      using frame by (simp add: leaf_def)
    have saved: "to_json_file fs s2 file = Some (to_json s2)"
      using frame names by (simp add: to_json_file_def)
    have kept: "entry (to_json s2) c' r' = entry st c' r'" if "(c', r') \<noteq> (c, r)" for c' r'
    proof (cases "entry st c' r'")
      case None
      with others [OF that] show ?thesis
        by (simp add: entry_to_json same_leaf)
    next
      case (Some fds)
      have "Loaded (fresh ?s0) c' r' \<noteq> contdata s1"
        using where_own that by auto
      then have "heap s2 (Loaded (fresh ?s0) c' r') = heap s1 (Loaded (fresh ?s0) c' r')"
        using frame by simp
      with others [OF that] Some show ?thesis
        by (simp add: entry_to_json same_leaf)
    qed
    have present: "entry (to_json s2) c r \<noteq> None"
      using own by (simp add: entry_to_json same_leaf)
    from saved kept present show ?thesis by blast
  qed
  with s1 show ?thesis by blast
qed

theorem merge_keeps_other_entries_witness:
  "(case from_json
           [lit ''data.json'' \<mapsto>
              [lit ''merlin-training'' \<mapsto> [lit ''22.01'' \<mapsto> [lit ''cuda'' \<mapsto> Str (lit ''11.5'')]]]]
           (init (lit ''merlin-training'') (lit ''22.02'') (lit ''data.json'') False) of
      Inl e \<Rightarrow> None
    | Inr s1 \<Rightarrow>
        (case perform_all (\<lambda>v. Inl TypeError) [Insert_snippet (lit ''cuda'') (Str (lit ''11.6''))] s1 of
           Inl e \<Rightarrow> None
         | Inr s2 \<Rightarrow>
             Some (entry (to_json s2) (lit ''merlin-training'') (lit ''22.01''),
                   entry (to_json s2) (lit ''merlin-training'') (lit ''22.02''),
                   entry (to_json s2) (lit ''merlin-inference'') (lit ''22.01''))))
   = Some (Some [lit ''cuda'' \<mapsto> Str (lit ''11.5'')],
           Some [lit ''cuda'' \<mapsto> Str (lit ''11.6'')],
           None)"
  using merge_keeps_other_entries
    [of "[lit ''data.json'' \<mapsto>
            [lit ''merlin-training'' \<mapsto> [lit ''22.01'' \<mapsto> [lit ''cuda'' \<mapsto> Str (lit ''11.5'')]]]]"
        "lit ''data.json''"
        "[lit ''merlin-training'' \<mapsto> [lit ''22.01'' \<mapsto> [lit ''cuda'' \<mapsto> Str (lit ''11.5'')]]]"
        "lit ''merlin-training''" "lit ''22.02''" False "\<lambda>v. Inl TypeError"]
  by (simp add: from_json_def json_load_def init_def insert_snippet_def setitem_def
        to_json_def entry_def lit_def Let_def)

subsection \<open>Skipping what is already there\<close>

text \<open>
  C4. \<^verbatim>\<open>already_present\<close> is true exactly when the store file exists and the store in
  memory has the container key, under it the release key, and there a field record that
  is not empty. So it is false for a missing file, a missing container key, a missing
  release key and an empty record; in particular it is false after a load in force mode,
  which has emptied the record.
\<close>

theorem already_present_iff:
  "(already_present fs s \<longleftrightarrow>
      fs (datafile s) \<noteq> None \<and>
      (\<exists>rels fds. to_json s (container_name s) = Some rels \<and> rels (release s) = Some fds \<and>
         fds \<noteq> Map.empty)) \<and>
   (fs (datafile s) = None \<longrightarrow> \<not> already_present fs s) \<and>
   (to_json s (container_name s) = None \<longrightarrow> \<not> already_present fs s) \<and>
   (entry (to_json s) (container_name s) (release s) = None \<longrightarrow> \<not> already_present fs s) \<and>
   (entry (to_json s) (container_name s) (release s) = Some Map.empty \<longrightarrow>
      \<not> already_present fs s) \<and>
   (fs (datafile s) \<noteq> None \<and> force s \<and> from_json fs s = Inr s' \<longrightarrow> \<not> already_present fs s')"
proof -
  have iff: "already_present fs s \<longleftrightarrow>
      fs (datafile s) \<noteq> None \<and>
      (\<exists>rels fds. to_json s (container_name s) = Some rels \<and> rels (release s) = Some fds \<and>
         fds \<noteq> Map.empty)"
    by (auto simp: already_present_def to_json_def split: option.splits)
  have no_file: "\<not> already_present fs s" if "fs (datafile s) = None"
    using that by (simp add: already_present_def)
  have no_container: "\<not> already_present fs s" if "to_json s (container_name s) = None"
    using that by (simp add: iff)
  have no_release: "\<not> already_present fs s"
    if "entry (to_json s) (container_name s) (release s) = None"
    using that by (auto simp: iff entry_def)
  have no_fields: "\<not> already_present fs s"
    if "entry (to_json s) (container_name s) (release s) = Some Map.empty"
    using that by (auto simp: iff entry_def)
  have forced: "\<not> already_present fs s'"
    if "fs (datafile s) \<noteq> None" and "force s" and "from_json fs s = Inr s'"
  proof -
    from that(1) obtain st where st: "fs (datafile s) = Some st" by auto
    from from_json_present [of fs s st] st that(2,3)
    have "leaf s' (container_name s') (release s') = Some (contdata s')"
      and "heap s' (contdata s') = Map.empty"
      by auto
    then show ?thesis
      by (auto simp: already_present_def leaf_def split: option.splits)
  qed
  show ?thesis
    using iff no_file no_container no_release no_fields forced by blast
qed

theorem already_present_iff_witness:
  "(case from_json
           [lit ''data.json'' \<mapsto>
              [lit ''merlin-training'' \<mapsto> [lit ''22.02'' \<mapsto> [lit ''cuda'' \<mapsto> Str (lit ''11.6'')]]]]
           (init (lit ''merlin-training'') (lit ''22.02'') (lit ''data.json'') True) of
      Inl e \<Rightarrow> None
    | Inr s' \<Rightarrow>
        Some (already_present
           [lit ''data.json'' \<mapsto>
              [lit ''merlin-training'' \<mapsto> [lit ''22.02'' \<mapsto> [lit ''cuda'' \<mapsto> Str (lit ''11.6'')]]]]
           s')) = Some False
   \<and> (case from_json
           [lit ''data.json'' \<mapsto>
              [lit ''merlin-training'' \<mapsto> [lit ''22.02'' \<mapsto> [lit ''cuda'' \<mapsto> Str (lit ''11.6'')]]]]
           (init (lit ''merlin-training'') (lit ''22.02'') (lit ''data.json'') False) of
      Inl e \<Rightarrow> None
    | Inr s' \<Rightarrow>
        Some (already_present
           [lit ''data.json'' \<mapsto>
              [lit ''merlin-training'' \<mapsto> [lit ''22.02'' \<mapsto> [lit ''cuda'' \<mapsto> Str (lit ''11.6'')]]]]
           s')) = Some True"
  using already_present_iff
    [of "[lit ''data.json'' \<mapsto>
            [lit ''merlin-training'' \<mapsto> [lit ''22.02'' \<mapsto> [lit ''cuda'' \<mapsto> Str (lit ''11.6'')]]]]"
        "init (lit ''merlin-training'') (lit ''22.02'') (lit ''data.json'') True"]
  by (simp add: from_json_def json_load_def init_def already_present_def entry_def lit_def
        Let_def)

section \<open>Properties of the start of \<^verbatim>\<open>main\<close> and of the publish workflow\<close>

subsection \<open>An absent store file\<close>

text \<open>
  C9. When the store file is absent, \<^verbatim>\<open>from_json\<close> returns without an error and leaves
  the extractor as it is; after \<^verbatim>\<open>__init__\<close> the store in memory then holds nothing but
  the empty record of the extractor's own container and release, and
  \<^verbatim>\<open>already_present\<close> is false. The run as a whole does not treat the absence as a first
  run: \<^verbatim>\<open>main\<close> asks for the modification time of \<^verbatim>\<open>data.json\<close> beside the script before
  anything else, and that raises \<^verbatim>\<open>FileNotFoundError\<close> when the file is absent.
\<close>

theorem absent_store_file:
  "(fs (datafile s) = None \<longrightarrow> from_json fs s = Inr s) \<and>
   (fs file = None \<longrightarrow>
      from_json fs (init name rel file frc) = Inr (init name rel file frc) \<and>
      \<not> already_present fs (init name rel file frc)) \<and>
   to_json (init name rel file frc) = [name \<mapsto> [rel \<mapsto> Map.empty]] \<and>
   (fs jsonfile = None \<longrightarrow> main rest fs mtime jsonfile = Inl FileNotFoundError)"
proof -
  have to_json_init: "to_json (init name rel file frc) = [name \<mapsto> [rel \<mapsto> Map.empty]]"
    by (auto simp: to_json_def init_def fun_eq_iff)
  show ?thesis
    by (simp add: from_json_absent to_json_init main_def stat_mtime_def)
      (simp add: init_def from_json_def already_present_def)
qed

text \<open>A first run in a directory without \<^verbatim>\<open>data.json\<close>.\<close>

theorem absent_store_file_witness:
  "from_json Map.empty (init (lit ''merlin-training'') (lit ''22.02'') (lit ''docs/data.json'') False)
     = Inr (init (lit ''merlin-training'') (lit ''22.02'') (lit ''docs/data.json'') False)
   \<and> main (\<lambda>t. Inr t) Map.empty (\<lambda>p. 0) (lit ''docs/data.json'') = Inl FileNotFoundError"
  using absent_store_file
    [of Map.empty "init (lit ''merlin-training'') (lit ''22.02'') (lit ''docs/data.json'') False"
        "lit ''docs/data.json''" "lit ''merlin-training''" "lit ''22.02''" False
        "lit ''docs/data.json''" "\<lambda>t. Inr t" "\<lambda>p. 0"]
  by simp

subsection \<open>Auxiliary facts on the branch loop\<close>

lemma create_branch_finds:
  assumes "get_branch r (lit ''main'') = Inr sha"
    and "N < 25"
    and "refs r (remote_branch rel (Suc N)) = None"
    and "\<forall>k. counter \<le> k \<and> k \<le> N \<longrightarrow> refs r (remote_branch rel k) \<noteq> None"
    and "counter \<le> Suc N"
  shows "create_branch r rel counter =
     Inr (r\<lparr>refs := (refs r)(remote_branch rel (Suc N) \<mapsto> sha)\<rparr>, remote_branch rel (Suc N))"
  using assms(4,5)
proof (induction "Suc N - counter" arbitrary: counter)
  case 0
  then have "counter = Suc N" by simp
  with assms(1,3) show ?case
    by (simp add: create_branch.simps [of r rel "Suc N"] create_git_ref_def fun_upd_def)
next
  case (Suc d)
  then have le: "counter \<le> N" by simp
  with Suc.prems obtain t where taken: "refs r (remote_branch rel counter) = Some t"
    by auto
  have step: "create_branch r rel counter = create_branch r rel (Suc counter)"
    using assms(1,2) taken le
    by (simp add: create_branch.simps [of r rel counter] create_git_ref_def)
  have "create_branch r rel (Suc counter) =
     Inr (r\<lparr>refs := (refs r)(remote_branch rel (Suc N) \<mapsto> sha)\<rparr>, remote_branch rel (Suc N))"
    using Suc.hyps(2) Suc.prems le by (intro Suc.hyps(1)) auto
  with step show ?case by simp
qed

lemma create_branch_exhausted:
  assumes "\<forall>k. counter \<le> k \<and> k \<le> 25 \<longrightarrow> refs r (remote_branch rel k) \<noteq> None"
    and "counter \<le> 25"
  shows "create_branch r rel counter = Inl GithubException"
  using assms
proof (induction "25 - counter" arbitrary: counter)
  case 0
  then have "counter = 25" by simp
  with "0.prems" obtain t where "refs r (remote_branch rel 25) = Some t" by auto
  with \<open>counter = 25\<close> show ?case
    by (simp add: create_branch.simps [of r rel 25] create_git_ref_def get_branch_def
          split: option.splits)
next
  case (Suc d)
  then have lt: "counter < 25" by simp
  with Suc.prems obtain t where taken: "refs r (remote_branch rel counter) = Some t"
    by (metis less_or_eq_imp_le not_Some_eq order_refl)
  show ?case
  proof (cases "get_branch r (lit ''main'')")
    case (Inl e)
    then have e: "e = GithubException"
      by (simp add: get_branch_def split: option.splits)
    have "create_branch r rel counter = create_branch r rel (Suc counter)"
      using Inl e lt by (simp add: create_branch.simps [of r rel counter])
    moreover have "create_branch r rel (Suc counter) = Inl GithubException"
      using Suc.hyps(2) Suc.prems lt by (intro Suc.hyps(1)) auto
    ultimately show ?thesis by simp
  next
    case (Inr sha)
    have "create_branch r rel counter = create_branch r rel (Suc counter)"
      using Inr taken lt by (simp add: create_branch.simps [of r rel counter] create_git_ref_def)
    moreover have "create_branch r rel (Suc counter) = Inl GithubException"
      using Suc.hyps(2) Suc.prems lt by (intro Suc.hyps(1)) auto
    ultimately show ?thesis by simp
  qed
qed

lemma compare_files_update: "compare_files t (t(p \<mapsto> c)) = {} \<longleftrightarrow> t p = Some c"
  by (auto simp: compare_files_def)

subsection \<open>Naming the scratch branch\<close>

text \<open>
  C6. The scratch branch is \<^verbatim>\<open>refs/heads/docs-smx-\<close>, the release with every \<^verbatim>\<open>.\<close>
  removed, \<^verbatim>\<open>-\<close> and a counter that starts at 1. When the branches numbered 1 to \<open>N\<close>
  exist and the next one does not, with \<open>N\<close> below the bound of 25 attempts, the loop
  creates the branch numbered \<open>N + 1\<close> at the tip of \<^verbatim>\<open>main\<close>. When the branches numbered
  1 to 25 all exist, the loop gives up after 25 attempts and the \<^verbatim>\<open>GithubException\<close>
  leaves \<^verbatim>\<open>open_pr\<close>.
\<close>

theorem branch_naming:
  assumes "get_branch r (lit ''main'') = Inr sha"
  shows
    "remote_branch rel k =
       lit ''refs/heads/docs-smx-'' @ remove_char 46 rel @ lit ''-'' @ str_of_nat k \<and>
     (N < 25 \<and> (\<forall>k. 1 \<le> k \<and> k \<le> N \<longrightarrow> refs r (remote_branch rel k) \<noteq> None) \<and>
        refs r (remote_branch rel (Suc N)) = None \<longrightarrow>
        create_branch r rel 1 =
          Inr (r\<lparr>refs := (refs r)(remote_branch rel (Suc N) \<mapsto> sha)\<rparr>,
               remote_branch rel (Suc N))) \<and>
     ((\<forall>k. 1 \<le> k \<and> k \<le> 25 \<longrightarrow> refs r (remote_branch rel k) \<noteq> None) \<longrightarrow>
        create_branch r rel 1 = Inl GithubException \<and>
        open_pr (Some tk) (Some text) r path rel = Inl GithubException)"
proof -
  have name: "remote_branch rel k =
      lit ''refs/heads/docs-smx-'' @ remove_char 46 rel @ lit ''-'' @ str_of_nat k"
    by (simp add: remote_branch_def pr_branch_def lit_def)
  have found: "create_branch r rel 1 =
      Inr (r\<lparr>refs := (refs r)(remote_branch rel (Suc N) \<mapsto> sha)\<rparr>, remote_branch rel (Suc N))"
    if "N < 25" and "\<forall>k. 1 \<le> k \<and> k \<le> N \<longrightarrow> refs r (remote_branch rel k) \<noteq> None"
      and "refs r (remote_branch rel (Suc N)) = None"
    using create_branch_finds [OF assms that(1) that(3), of 1] that(2) by simp
  have exhausted: "create_branch r rel 1 = Inl GithubException \<and>
      open_pr (Some tk) (Some text) r path rel = Inl GithubException"
    if "\<forall>k. 1 \<le> k \<and> k \<le> 25 \<longrightarrow> refs r (remote_branch rel k) \<noteq> None"
    using create_branch_exhausted [of 1 r rel] that by (simp add: open_pr_def)
  show ?thesis
    using name found exhausted by blast
qed

text \<open>
  With the branches 1 and 2 of release \<^verbatim>\<open>22.02\<close> in place, the next run creates
  \<^verbatim>\<open>refs/heads/docs-smx-2202-3\<close>.
\<close>

theorem branch_naming_witness:
  "create_branch
     \<lparr>refs = [lit ''refs/heads/main'' \<mapsto> [lit ''docs/data.json'' \<mapsto> lit ''{}''],
              lit ''refs/heads/docs-smx-2202-1'' \<mapsto> Map.empty,
              lit ''refs/heads/docs-smx-2202-2'' \<mapsto> Map.empty],
      pulls = [], accepts_pulls = True\<rparr>
     (lit ''22.02'') 1
   = Inr (\<lparr>refs = [lit ''refs/heads/main'' \<mapsto> [lit ''docs/data.json'' \<mapsto> lit ''{}''],
                   lit ''refs/heads/docs-smx-2202-1'' \<mapsto> Map.empty,
                   lit ''refs/heads/docs-smx-2202-2'' \<mapsto> Map.empty,
                   lit ''refs/heads/docs-smx-2202-3'' \<mapsto> [lit ''docs/data.json'' \<mapsto> lit ''{}'']],
           pulls = [], accepts_pulls = True\<rparr>,
          lit ''refs/heads/docs-smx-2202-3'')"
proof -
  let ?r = "\<lparr>refs = [lit ''refs/heads/main'' \<mapsto> [lit ''docs/data.json'' \<mapsto> lit ''{}''],
              lit ''refs/heads/docs-smx-2202-1'' \<mapsto> Map.empty,
              lit ''refs/heads/docs-smx-2202-2'' \<mapsto> Map.empty],
      pulls = [], accepts_pulls = True\<rparr>"
  have main: "get_branch ?r (lit ''main'') = Inr [lit ''docs/data.json'' \<mapsto> lit ''{}'']"
    by (simp add: get_branch_def lit_def)
  have names: "remote_branch (lit ''22.02'') 1 = lit ''refs/heads/docs-smx-2202-1''"
    "remote_branch (lit ''22.02'') 2 = lit ''refs/heads/docs-smx-2202-2''"
    "remote_branch (lit ''22.02'') 3 = lit ''refs/heads/docs-smx-2202-3''"
    by (simp_all add: remote_branch_def pr_branch_def remove_char_def lit_def str_of_nat.simps)
  have taken: "\<forall>k. 1 \<le> k \<and> k \<le> 2 \<longrightarrow> refs ?r (remote_branch (lit ''22.02'') k) \<noteq> None"
  proof (intro allI impI)
    fix k :: nat
    assume "1 \<le> k \<and> k \<le> 2"
    then have "k = 1 \<or> k = 2" by arith
    then show "refs ?r (remote_branch (lit ''22.02'') k) \<noteq> None"
      using names by (auto simp: lit_def)
  qed
  have free: "refs ?r (remote_branch (lit ''22.02'') (Suc 2)) = None"
    using names(3) by (simp add: lit_def eval_nat_numeral)
  have pre: "(2::nat) < 25 \<and>
      (\<forall>k. 1 \<le> k \<and> k \<le> 2 \<longrightarrow> refs ?r (remote_branch (lit ''22.02'') k) \<noteq> None) \<and>
      refs ?r (remote_branch (lit ''22.02'') (Suc 2)) = None"
    by (intro conjI) (simp, rule taken, rule free)
  from branch_naming [OF main, where rel = "lit ''22.02''" and N = 2] pre
  have "create_branch ?r (lit ''22.02'') 1 =
      Inr (?r\<lparr>refs := (refs ?r)(remote_branch (lit ''22.02'') (Suc 2) \<mapsto> [lit ''docs/data.json'' \<mapsto> lit ''{}''])\<rparr>,
           remote_branch (lit ''22.02'') (Suc 2))"
    by blast
  then show ?thesis
    using names(3) by (simp add: eval_nat_numeral)
qed

subsection \<open>Publishing unchanged content\<close>

text \<open>
  C5. Let a scratch branch be available within the bound, and let the content committed
  to it be the content the file has on \<^verbatim>\<open>main\<close>, which is when the set of files differing
  between the tip of \<^verbatim>\<open>main\<close> and the new commit is empty. Then \<^verbatim>\<open>open_pr\<close> returns without
  an error, the scratch branch is gone (the refs are those from before the call) and no
  pull request has been added.
\<close>

theorem unchanged_content_opens_no_pull:
  assumes "get_branch r (lit ''main'') = Inr main_sha"
    and "compare_files main_sha (main_sha(path \<mapsto> text)) = {}"
    and "N < 25"
    and "\<forall>k. 1 \<le> k \<and> k \<le> N \<longrightarrow> refs r (remote_branch rel k) \<noteq> None"
    and "refs r (remote_branch rel (Suc N)) = None"
  shows "create_branch r rel 1 =
           Inr (r\<lparr>refs := (refs r)(remote_branch rel (Suc N) \<mapsto> main_sha)\<rparr>,
                remote_branch rel (Suc N)) \<and>
         (\<exists>r'. open_pr (Some tk) (Some text) r path rel = Inr r' \<and>
            refs r' (remote_branch rel (Suc N)) = None \<and> refs r' = refs r \<and>
            pulls r' = pulls r \<and> r' = r)"
proof -
  let ?ref = "remote_branch rel (Suc N)"
  let ?r1 = "r\<lparr>refs := (refs r)(?ref \<mapsto> main_sha)\<rparr>"
  have same: "main_sha path = Some text"
    using assms(2) by (simp add: compare_files_update)
  have created: "create_branch r rel (Suc 0) = Inr (?r1, ?ref)"
    using create_branch_finds [OF assms(1,3,5), of 1] assms(4) by simp
  have main_ref: "refs r (lit ''refs/heads/'' @ lit ''main'') = Some main_sha"
    using assms(1) by (simp add: get_branch_def split: option.splits)
  then have other: "?ref \<noteq> lit ''refs/heads/'' @ lit ''main''"
    using assms(5) by auto
  have contents: "get_contents ?r1 path ?ref = Inr text"
    using same by (simp add: get_contents_def)
  have commit: "main_sha(path \<mapsto> text) = main_sha"
    using same by (simp add: fun_upd_idem)
  have updated: "update_file ?r1 path text ?ref = Inr (?r1, main_sha)"
    by (simp add: update_file_def commit)
  have main_after: "get_branch ?r1 (lit ''main'') = Inr main_sha"
    using main_ref other by (simp add: get_branch_def)
  have no_diff: "compare_files main_sha main_sha = {}"
    by (simp add: compare_files_def)
  have deleted: "delete_ref ?r1 ?ref = r"
    using assms(5) by (simp add: delete_ref_def fun_upd_idem)
  have "open_pr (Some tk) (Some text) r path rel = Inr r"
    by (simp add: open_pr_def created contents updated main_after no_diff deleted)
  with assms(5) created show ?thesis by simp
qed

theorem unchanged_content_opens_no_pull_witness:
  "open_pr (Some (lit ''token'')) (Some (lit ''{}''))
     \<lparr>refs = [lit ''refs/heads/main'' \<mapsto> [lit ''docs/data.json'' \<mapsto> lit ''{}'']],
      pulls = [], accepts_pulls = True\<rparr>
     (lit ''docs/data.json'') (lit ''22.02'')
   = Inr \<lparr>refs = [lit ''refs/heads/main'' \<mapsto> [lit ''docs/data.json'' \<mapsto> lit ''{}'']],
          pulls = [], accepts_pulls = True\<rparr>"
proof -
  let ?r = "\<lparr>refs = [lit ''refs/heads/main'' \<mapsto> [lit ''docs/data.json'' \<mapsto> lit ''{}'']],
      pulls = [], accepts_pulls = True\<rparr>"
  have main: "get_branch ?r (lit ''main'') = Inr [lit ''docs/data.json'' \<mapsto> lit ''{}'']"
    by (simp add: get_branch_def lit_def)
  have no_diff: "compare_files [lit ''docs/data.json'' \<mapsto> lit ''{}'']
      ([lit ''docs/data.json'' \<mapsto> lit ''{}''](lit ''docs/data.json'' \<mapsto> lit ''{}'')) = {}"
    by (simp add: compare_files_def)
  have free: "refs ?r (remote_branch (lit ''22.02'') (Suc 0)) = None"
    by (simp add: remote_branch_def pr_branch_def remove_char_def lit_def str_of_nat.simps)
  from unchanged_content_opens_no_pull [OF main no_diff _ _ free, of "lit ''token''"]
  show ?thesis by simp
qed

end
